theory Spec2Isabelle
  imports Main "HOL-Library.AList"
begin

section \<open>Stored records\<close>

text \<open>
  The program keeps three JSON files, each a list of dictionaries. A dictionary is an
  association list from field names to values; the values the program itself stores are
  integers (the identifiers and the room counters) and strings (names, e-mail, phone,
  the date stamp). Other JSON values (floats, booleans, null, nested data) are outside
  this model.
\<close>

datatype val = IntV int | StrV string

type_synonym row = "(string \<times> val) list"

text \<open>
  The exceptions that the operations do not catch: \<open>d[k]\<close> on a missing key, and
  \<open>TypeError\<close>: arithmetic or ordering between a string and an integer, or a call that
  gives a parameter twice.
\<close>

datatype error = KeyError | TypeError

text \<open>\<open>d[k]\<close>, \<open>k in d\<close> and \<open>d[k] = v\<close> of a Python dictionary.\<close>

definition getitem :: "row \<Rightarrow> string \<Rightarrow> error + val" where
  "getitem d k = (case map_of d k of None \<Rightarrow> Inl KeyError | Some v \<Rightarrow> Inr v)"

definition contains :: "row \<Rightarrow> string \<Rightarrow> bool" where
  "contains d k = (map_of d k \<noteq> None)"

definition setitem :: "row \<Rightarrow> string \<Rightarrow> val \<Rightarrow> row" where
  "setitem d k v = AList.update k v d"

section \<open>The record store: \<open>load_data\<close> and \<open>save_data\<close>\<close>

text \<open>
  A file either does not exist (\<open>content = None\<close>) or holds text that is a JSON list of
  records (\<open>Json\<close>) or is not JSON at all (\<open>Garbage\<close>). Opening it for reading or for
  writing may fail with \<open>OSError\<close> (permissions, a directory in its place, ...); the two
  flags say so. The text of a file is taken to be decodable: byte-level encoding faults
  are not part of this model.
\<close>

datatype content = Garbage | Json "row list"

record json_file =
  content :: "content option"
  read_error :: bool
  write_error :: bool

datatype io_error = OSError | JSONDecodeError

text \<open>The body of the \<open>try\<close> in \<open>load_data\<close>: \<open>open(filename, "r")\<close>, then \<open>json.load\<close>.\<close>

definition json_load :: "json_file \<Rightarrow> io_error + row list" where
  "json_load f =
     (if read_error f then Inl OSError
      else case content f of
             None \<Rightarrow> Inl OSError
           | Some Garbage \<Rightarrow> Inl JSONDecodeError
           | Some (Json rs) \<Rightarrow> Inr rs)"

definition load_data :: "json_file \<Rightarrow> row list" where
  "load_data f =
     (if content f = None then []
      else case json_load f of
             Inr rs \<Rightarrow> rs
           | Inl JSONDecodeError \<Rightarrow> []
           | Inl OSError \<Rightarrow> [])"

text \<open>
  \<open>save_data\<close> overwrites the file with the whole list; when the file cannot be opened
  for writing the \<open>OSError\<close> is caught and the file stays as it was.
\<close>

definition save_data :: "json_file \<Rightarrow> row list \<Rightarrow> json_file" where
  "save_data f rs = (if write_error f then f else f\<lparr>content := Some (Json rs)\<rparr>)"

record store =
  hotels_file :: json_file
  customers_file :: json_file
  reservations_file :: json_file

section \<open>Entity models\<close>

text \<open>The constructors followed by \<open>to_dict\<close>: the dictionary of the attributes, in order.\<close>

definition Hotel :: "int \<Rightarrow> string \<Rightarrow> string \<Rightarrow> int \<Rightarrow> row" where
  "Hotel hotel_id name location total_rooms =
     [(''hotel_id'', IntV hotel_id), (''name'', StrV name), (''location'', StrV location),
      (''total_rooms'', IntV total_rooms), (''available_rooms'', IntV total_rooms)]"

definition Customer :: "int \<Rightarrow> string \<Rightarrow> string \<Rightarrow> string \<Rightarrow> row" where
  "Customer customer_id name email phone =
     [(''customer_id'', IntV customer_id), (''name'', StrV name), (''email'', StrV email),
      (''phone'', StrV phone)]"

text \<open>
  \<open>Reservation\<close> stamps \<open>str(datetime.now())\<close>; the clock is an input of the model
  (the argument \<open>now\<close>).
\<close>

definition Reservation :: "int \<Rightarrow> int \<Rightarrow> int \<Rightarrow> string \<Rightarrow> row" where
  "Reservation reservation_id customer_id hotel_id now =
     [(''reservation_id'', IntV reservation_id), (''customer_id'', IntV customer_id),
      (''hotel_id'', IntV hotel_id), (''date'', StrV now)]"

section \<open>The scans of the operations\<close>

text \<open>
  \<open>any(r[k] == v for r in rs)\<close>: stops at the first match; a record without the key
  before that match raises \<open>KeyError\<close>.
\<close>

fun any_eq :: "string \<Rightarrow> val \<Rightarrow> row list \<Rightarrow> error + bool" where
  "any_eq k v [] = Inr False"
| "any_eq k v (r # rs) =
     (case getitem r k of
        Inl e \<Rightarrow> Inl e
      | Inr w \<Rightarrow> if w = v then Inr True else any_eq k v rs)"

text \<open>\<open>[r for r in rs if r[k] != v]\<close>: reads the key of every record.\<close>

fun filter_ne :: "string \<Rightarrow> val \<Rightarrow> row list \<Rightarrow> error + row list" where
  "filter_ne k v [] = Inr []"
| "filter_ne k v (r # rs) =
     (case getitem r k of
        Inl e \<Rightarrow> Inl e
      | Inr w \<Rightarrow>
          (case filter_ne k v rs of
             Inl e \<Rightarrow> Inl e
           | Inr rs' \<Rightarrow> Inr (if w \<noteq> v then r # rs' else rs')))"

text \<open>
  The inner loop of \<open>modify_*\<close>: \<open>for key, value in kwargs.items(): if key in d: d[key] = value\<close>.
\<close>

fun apply_kwargs :: "(string \<times> val) list \<Rightarrow> row \<Rightarrow> row" where
  "apply_kwargs [] d = d"
| "apply_kwargs ((key, value) # kwargs) d =
     apply_kwargs kwargs (if contains d key then setitem d key value else d)"

text \<open>
  The outer loop of \<open>modify_*\<close>: the first record whose key matches is updated in place and
  the loop returns; \<open>None\<close> when the loop ends without a match.
\<close>

fun modify_first :: "string \<Rightarrow> val \<Rightarrow> (string \<times> val) list \<Rightarrow> row list \<Rightarrow> error + row list option" where
  "modify_first k v kwargs [] = Inr None"
| "modify_first k v kwargs (r # rs) =
     (case getitem r k of
        Inl e \<Rightarrow> Inl e
      | Inr w \<Rightarrow>
          if w = v then Inr (Some (apply_kwargs kwargs r # rs))
          else (case modify_first k v kwargs rs of
                  Inl e \<Rightarrow> Inl e
                | Inr None \<Rightarrow> Inr None
                | Inr (Some rs') \<Rightarrow> Inr (Some (r # rs'))))"

text \<open>
  The hotel loop of \<open>create_reservation\<close>: at the first hotel with the id, no room left
  returns \<open>False\<close> (\<open>None\<close> here), otherwise its counter is decremented in place. A string
  in the counter raises \<open>TypeError\<close> at \<open><= 0\<close>. \<open>None\<close> also when no hotel matches.
\<close>

fun book_room :: "int \<Rightarrow> row list \<Rightarrow> error + row list option" where
  "book_room hotel_id [] = Inr None"
| "book_room hotel_id (hotel # hotels) =
     (case getitem hotel ''hotel_id'' of
        Inl e \<Rightarrow> Inl e
      | Inr w \<Rightarrow>
          if w = IntV hotel_id then
            (case getitem hotel ''available_rooms'' of
               Inl e \<Rightarrow> Inl e
             | Inr (StrV s) \<Rightarrow> Inl TypeError
             | Inr (IntV a) \<Rightarrow>
                 if a \<le> 0 then Inr None
                 else Inr (Some (setitem hotel ''available_rooms'' (IntV (a - 1)) # hotels)))
          else (case book_room hotel_id hotels of
                  Inl e \<Rightarrow> Inl e
                | Inr None \<Rightarrow> Inr None
                | Inr (Some hotels') \<Rightarrow> Inr (Some (hotel # hotels'))))"

text \<open>The reservation loop of \<open>cancel_reservation\<close>: the first record with the id.\<close>

fun find_reservation :: "int \<Rightarrow> row list \<Rightarrow> error + row option" where
  "find_reservation reservation_id [] = Inr None"
| "find_reservation reservation_id (r # rs) =
     (case getitem r ''reservation_id'' of
        Inl e \<Rightarrow> Inl e
      | Inr w \<Rightarrow> if w = IntV reservation_id then Inr (Some r)
                else find_reservation reservation_id rs)"

text \<open>
  The hotel loop of \<open>cancel_reservation\<close>: every hotel whose id equals the reservation's
  \<open>hotel_id\<close> gets \<open>available_rooms += 1\<close>.
\<close>

fun release_rooms :: "row \<Rightarrow> row list \<Rightarrow> error + row list" where
  "release_rooms reservation [] = Inr []"
| "release_rooms reservation (hotel # hotels) =
     (case getitem hotel ''hotel_id'' of
        Inl e \<Rightarrow> Inl e
      | Inr w \<Rightarrow>
          (case getitem reservation ''hotel_id'' of
             Inl e \<Rightarrow> Inl e
           | Inr u \<Rightarrow>
               (case (if w = u then
                        (case getitem hotel ''available_rooms'' of
                           Inl e \<Rightarrow> Inl e
                         | Inr (StrV s) \<Rightarrow> Inl TypeError
                         | Inr (IntV a) \<Rightarrow> Inr (setitem hotel ''available_rooms'' (IntV (a + 1))))
                      else Inr hotel) of
                  Inl e \<Rightarrow> Inl e
                | Inr hotel' \<Rightarrow>
                    (case release_rooms reservation hotels of
                       Inl e \<Rightarrow> Inl e
                     | Inr hotels' \<Rightarrow> Inr (hotel' # hotels')))))"

section \<open>The operations of \<open>HotelSystem\<close>\<close>

text \<open>
  Every operation takes the store and returns either the uncaught exception (the files
  are then as before, since every save comes after the last read of a record) or the
  boolean it returns together with the store it leaves.
\<close>

definition create_hotel :: "store \<Rightarrow> int \<Rightarrow> string \<Rightarrow> string \<Rightarrow> int \<Rightarrow> error + bool \<times> store" where
  "create_hotel st hotel_id name location total_rooms =
     (let hotels = load_data (hotels_file st) in
      case any_eq ''hotel_id'' (IntV hotel_id) hotels of
        Inl e \<Rightarrow> Inl e
      | Inr True \<Rightarrow> Inr (False, st)
      | Inr False \<Rightarrow>
          Inr (True, st\<lparr>hotels_file :=
                 save_data (hotels_file st) (hotels @ [Hotel hotel_id name location total_rooms])\<rparr>))"

definition delete_hotel :: "store \<Rightarrow> int \<Rightarrow> error + bool \<times> store" where
  "delete_hotel st hotel_id =
     (let hotels = load_data (hotels_file st) in
      case filter_ne ''hotel_id'' (IntV hotel_id) hotels of
        Inl e \<Rightarrow> Inl e
      | Inr new_hotels \<Rightarrow>
          if length new_hotels = length hotels then Inr (False, st)
          else Inr (True, st\<lparr>hotels_file := save_data (hotels_file st) new_hotels\<rparr>))"

definition display_hotels :: "store \<Rightarrow> row list" where
  "display_hotels st = load_data (hotels_file st)"

text \<open>
  \<open>def modify_hotel(self, hotel_id, **kwargs)\<close>: Python binds a keyword argument that is
  named like a parameter to that parameter, so \<open>kwargs\<close> never holds \<open>self\<close> or
  \<open>hotel_id\<close>. A call that passes one of them by keyword beside the positional id
  (\<open>modify_hotel(1, hotel_id=2)\<close>) raises \<open>TypeError\<close> (multiple values for the argument)
  before the body runs. The same holds for \<open>modify_customer\<close> and \<open>customer_id\<close>.
\<close>

definition names_parameter :: "string list \<Rightarrow> (string \<times> val) list \<Rightarrow> bool" where
  "names_parameter params kwargs = (\<exists>k\<in>set params. k \<in> fst ` set kwargs)"

definition modify_hotel :: "store \<Rightarrow> int \<Rightarrow> (string \<times> val) list \<Rightarrow> error + bool \<times> store" where
  "modify_hotel st hotel_id kwargs =
     (if names_parameter [''self'', ''hotel_id''] kwargs then Inl TypeError
      else
        let hotels = load_data (hotels_file st) in
        case modify_first ''hotel_id'' (IntV hotel_id) kwargs hotels of
          Inl e \<Rightarrow> Inl e
        | Inr None \<Rightarrow> Inr (False, st)
        | Inr (Some hotels') \<Rightarrow>
            Inr (True, st\<lparr>hotels_file := save_data (hotels_file st) hotels'\<rparr>))"

definition create_customer :: "store \<Rightarrow> int \<Rightarrow> string \<Rightarrow> string \<Rightarrow> string \<Rightarrow> error + bool \<times> store" where
  "create_customer st customer_id name email phone =
     (let customers = load_data (customers_file st) in
      case any_eq ''customer_id'' (IntV customer_id) customers of
        Inl e \<Rightarrow> Inl e
      | Inr True \<Rightarrow> Inr (False, st)
      | Inr False \<Rightarrow>
          Inr (True, st\<lparr>customers_file :=
                 save_data (customers_file st) (customers @ [Customer customer_id name email phone])\<rparr>))"

definition delete_customer :: "store \<Rightarrow> int \<Rightarrow> error + bool \<times> store" where
  "delete_customer st customer_id =
     (let customers = load_data (customers_file st) in
      case filter_ne ''customer_id'' (IntV customer_id) customers of
        Inl e \<Rightarrow> Inl e
      | Inr new_customers \<Rightarrow>
          if length new_customers = length customers then Inr (False, st)
          else Inr (True, st\<lparr>customers_file := save_data (customers_file st) new_customers\<rparr>))"

definition display_customers :: "store \<Rightarrow> row list" where
  "display_customers st = load_data (customers_file st)"

definition modify_customer :: "store \<Rightarrow> int \<Rightarrow> (string \<times> val) list \<Rightarrow> error + bool \<times> store" where
  "modify_customer st customer_id kwargs =
     (if names_parameter [''self'', ''customer_id''] kwargs then Inl TypeError
      else
        let customers = load_data (customers_file st) in
        case modify_first ''customer_id'' (IntV customer_id) kwargs customers of
          Inl e \<Rightarrow> Inl e
        | Inr None \<Rightarrow> Inr (False, st)
        | Inr (Some customers') \<Rightarrow>
            Inr (True, st\<lparr>customers_file := save_data (customers_file st) customers'\<rparr>))"

definition create_reservation :: "store \<Rightarrow> int \<Rightarrow> int \<Rightarrow> int \<Rightarrow> string \<Rightarrow> error + bool \<times> store" where
  "create_reservation st reservation_id customer_id hotel_id now =
     (let reservations = load_data (reservations_file st);
          hotels = load_data (hotels_file st);
          customers = load_data (customers_file st) in
      case any_eq ''reservation_id'' (IntV reservation_id) reservations of
        Inl e \<Rightarrow> Inl e
      | Inr True \<Rightarrow> Inr (False, st)
      | Inr False \<Rightarrow>
          (case any_eq ''customer_id'' (IntV customer_id) customers of
             Inl e \<Rightarrow> Inl e
           | Inr False \<Rightarrow> Inr (False, st)
           | Inr True \<Rightarrow>
               (case book_room hotel_id hotels of
                  Inl e \<Rightarrow> Inl e
                | Inr None \<Rightarrow> Inr (False, st)
                | Inr (Some hotels') \<Rightarrow>
                    Inr (True, st\<lparr>hotels_file := save_data (hotels_file st) hotels',
                                   reservations_file :=
                                     save_data (reservations_file st)
                                       (reservations @
                                        [Reservation reservation_id customer_id hotel_id now])\<rparr>))))"

definition cancel_reservation :: "store \<Rightarrow> int \<Rightarrow> error + bool \<times> store" where
  "cancel_reservation st reservation_id =
     (let reservations = load_data (reservations_file st);
          hotels = load_data (hotels_file st) in
      case find_reservation reservation_id reservations of
        Inl e \<Rightarrow> Inl e
      | Inr None \<Rightarrow> Inr (False, st)
      | Inr (Some reservation) \<Rightarrow>
          (case release_rooms reservation hotels of
             Inl e \<Rightarrow> Inl e
           | Inr hotels' \<Rightarrow>
               Inr (True, st\<lparr>hotels_file := save_data (hotels_file st) hotels',
                              reservations_file :=
                                save_data (reservations_file st)
                                  (remove1 reservation reservations)\<rparr>)))"

definition display_reservations :: "store \<Rightarrow> row list" where
  "display_reservations st = load_data (reservations_file st)"

section \<open>Vocabulary of the properties\<close>

text \<open>
  A collection of the data model (every record carries its identity key), and the scan
  \<open>has_id\<close> of the integrity rules, stated on sets rather than as a loop.
\<close>

definition keyed :: "string \<Rightarrow> row list \<Rightarrow> bool" where
  "keyed k rs = (\<forall>r\<in>set rs. contains r k)"

definition has_id :: "string \<Rightarrow> int \<Rightarrow> row list \<Rightarrow> bool" where
  "has_id k i rs = (\<exists>r\<in>set rs. getitem r k = Inr (IntV i))"

text \<open>
  The store a call leaves behind: the one it returns, or the one it started from when
  it raised (no operation saves before its last read of a record).
\<close>

definition after :: "store \<Rightarrow> error + bool \<times> store \<Rightarrow> store" where
  "after st res = (case res of Inl e \<Rightarrow> st | Inr (b, st') \<Rightarrow> st')"

text \<open>The three storage conditions that \<open>load_data\<close> absorbs.\<close>

definition faulty :: "json_file \<Rightarrow> bool" where
  "faulty f = (content f = None \<or> read_error f \<or> content f = Some Garbage)"

text \<open>The identity keys of a collection, record by record, in order.\<close>

definition ids :: "string \<Rightarrow> row list \<Rightarrow> (error + val) list" where
  "ids k rs = map (\<lambda>r. getitem r k) rs"

text \<open>
  The public operations as values, and the store that a call leaves. The displays only
  read.
\<close>

datatype op =
    Create_hotel int string string int
  | Delete_hotel int
  | Modify_hotel int "(string \<times> val) list"
  | Display_hotels
  | Create_customer int string string string
  | Delete_customer int
  | Modify_customer int "(string \<times> val) list"
  | Display_customers
  | Create_reservation int int int string
  | Cancel_reservation int
  | Display_reservations

fun run :: "store \<Rightarrow> op \<Rightarrow> store" where
  "run st (Create_hotel hotel_id name location total_rooms) =
     after st (create_hotel st hotel_id name location total_rooms)"
| "run st (Delete_hotel hotel_id) = after st (delete_hotel st hotel_id)"
| "run st (Modify_hotel hotel_id kwargs) = after st (modify_hotel st hotel_id kwargs)"
| "run st Display_hotels = st"
| "run st (Create_customer customer_id name email phone) =
     after st (create_customer st customer_id name email phone)"
| "run st (Delete_customer customer_id) = after st (delete_customer st customer_id)"
| "run st (Modify_customer customer_id kwargs) = after st (modify_customer st customer_id kwargs)"
| "run st Display_customers = st"
| "run st (Create_reservation reservation_id customer_id hotel_id now) =
     after st (create_reservation st reservation_id customer_id hotel_id now)"
| "run st (Cancel_reservation reservation_id) = after st (cancel_reservation st reservation_id)"
| "run st Display_reservations = st"



text \<open>
  Room accounting as the integrity rules word it: the counter of a hotel record moved
  by \<open>d\<close>, and that applied to every hotel of a list whose id is \<open>v\<close>.
\<close>

definition add_rooms :: "int \<Rightarrow> row \<Rightarrow> row" where
  "add_rooms d h =
     (case getitem h ''available_rooms'' of
        Inr (IntV a) \<Rightarrow> setitem h ''available_rooms'' (IntV (a + d))
      | _ \<Rightarrow> h)"

definition add_rooms_at :: "val \<Rightarrow> int \<Rightarrow> row list \<Rightarrow> row list" where
  "add_rooms_at v d hs =
     map (\<lambda>h. if getitem h ''hotel_id'' = Inr v then add_rooms d h else h) hs"

text \<open>Hotel records as the data model has them: an id, and an integer room counter.\<close>

definition counted :: "row list \<Rightarrow> bool" where
  "counted hs =
     (keyed ''hotel_id'' hs \<and> (\<forall>h\<in>set hs. \<exists>a. getitem h ''available_rooms'' = Inr (IntV a)))"

text \<open>
  What it means for a call to leave the identity keys of the existing records alone:
  the new collection has the old keys record by record (records updated in place), or is
  the old one with records appended, or with records filtered out, or with one record
  removed.
\<close>

definition identity_kept :: "string \<Rightarrow> row list \<Rightarrow> row list \<Rightarrow> bool" where
  "identity_kept k old new =
     (ids k new = ids k old
      \<or> (\<exists>added. new = old @ added)
      \<or> (\<exists>P. new = filter P old)
      \<or> (\<exists>r. new = remove1 r old))"






text \<open>Concrete stores for the worked examples.\<close>

definition new_file :: json_file where
  "new_file = \<lparr>content = None, read_error = False, write_error = False\<rparr>"

definition stored :: "row list \<Rightarrow> json_file" where
  "stored rs = \<lparr>content = Some (Json rs), read_error = False, write_error = False\<rparr>"

definition empty_store :: store where
  "empty_store = \<lparr>hotels_file = new_file, customers_file = new_file, reservations_file = new_file\<rparr>"

definition broken_store :: store where
  "broken_store =
     \<lparr>hotels_file = \<lparr>content = Some Garbage, read_error = False, write_error = False\<rparr>,
      customers_file = \<lparr>content = Some (Json [Customer 1 ''John'' ''john@mail.com'' ''123'']),
                         read_error = True, write_error = False\<rparr>,
      reservations_file = new_file\<rparr>"

definition booked_store :: store where
  "booked_store =
     \<lparr>hotels_file = stored [setitem (Hotel 1 ''Test'' ''NY'' 2) ''available_rooms'' (IntV 1)],
      customers_file = stored [Customer 1 ''John'' ''john@mail.com'' ''123''],
      reservations_file = stored [Reservation 1 1 1 ''2024-05-01 10:00:00'']\<rparr>"

section \<open>Facts about the scans\<close>

lemma load_save:
  "load_data (save_data f rs) =
     (if write_error f then load_data f else if read_error f then [] else rs)"
  by (simp add: load_data_def save_data_def json_load_def)

lemma getitem_contains: "contains r k \<longleftrightarrow> (\<exists>w. getitem r k = Inr w)"
  by (auto simp: contains_def getitem_def split: option.splits)

lemma any_eq_keyed: "keyed k rs \<Longrightarrow> any_eq k (IntV i) rs = Inr (has_id k i rs)"
  by (induction rs) (auto simp: keyed_def has_id_def getitem_contains)


lemma filter_ne_keyed:
  "keyed k rs \<Longrightarrow> filter_ne k v rs = Inr (filter (\<lambda>r. getitem r k \<noteq> Inr v) rs)"
  by (induction rs) (auto simp: keyed_def getitem_contains)

lemma filter_all_length: "(length (filter P xs) = length xs) = (\<forall>x\<in>set xs. P x)"
  by (metis filter_id_conv length_filter_less less_irrefl filter_True)


lemma book_room_absent:
  "keyed ''hotel_id'' hs \<Longrightarrow> \<not> has_id ''hotel_id'' i hs \<Longrightarrow> book_room i hs = Inr None"
  by (induction hs) (auto simp: keyed_def has_id_def getitem_contains)

lemma find_reservation_absent:
  "keyed ''reservation_id'' rs \<Longrightarrow> \<not> has_id ''reservation_id'' i rs
   \<Longrightarrow> find_reservation i rs = Inr None"
  by (induction rs) (auto simp: keyed_def has_id_def getitem_contains)


lemmas example_defs =
  keyed_def has_id_def after_def names_parameter_def faulty_def new_file_def stored_def empty_store_def
  broken_store_def booked_store_def display_hotels_def display_customers_def
  display_reservations_def load_data_def json_load_def save_data_def
  Hotel_def Customer_def Reservation_def getitem_def contains_def setitem_def

section \<open>Creation\<close>

text \<open>
  C10. Whenever no hotel with the given id exists (in a collection whose records all carry
  \<open>hotel_id\<close>), \<open>create_hotel\<close> succeeds and saves the old list followed by one new
  record whose \<open>available_rooms\<close> equals its \<open>total_rooms\<close>, both being the argument
  \<open>total_rooms\<close> as given: nothing is assumed or checked about its sign.
\<close>

theorem create_hotel_available_is_total:
  assumes "keyed ''hotel_id'' (display_hotels st)"
    and "\<not> has_id ''hotel_id'' hotel_id (display_hotels st)"
  shows "create_hotel st hotel_id name location total_rooms =
           Inr (True, st\<lparr>hotels_file := save_data (hotels_file st)
                  (display_hotels st @ [Hotel hotel_id name location total_rooms])\<rparr>)
         \<and> getitem (Hotel hotel_id name location total_rooms) ''hotel_id'' = Inr (IntV hotel_id)
         \<and> getitem (Hotel hotel_id name location total_rooms) ''total_rooms'' = Inr (IntV total_rooms)
         \<and> getitem (Hotel hotel_id name location total_rooms) ''available_rooms'' = Inr (IntV total_rooms)"
  using assms
  by (simp add: create_hotel_def display_hotels_def any_eq_keyed Hotel_def getitem_def)

theorem create_hotel_available_is_total_witness:
  "keyed ''hotel_id'' (display_hotels booked_store)
   \<and> \<not> has_id ''hotel_id'' 7 (display_hotels booked_store)
   \<and> display_hotels (after booked_store (create_hotel booked_store 7 ''Inn'' ''Oslo'' (- 2)))
       = [[(''hotel_id'', IntV 1), (''name'', StrV ''Test''), (''location'', StrV ''NY''),
           (''total_rooms'', IntV 2), (''available_rooms'', IntV 1)],
          [(''hotel_id'', IntV 7), (''name'', StrV ''Inn''), (''location'', StrV ''Oslo''),
           (''total_rooms'', IntV (- 2)), (''available_rooms'', IntV (- 2))]]"
  using create_hotel_available_is_total [of booked_store 7 "''Inn''" "''Oslo''" "- 2"]
  by (simp add: example_defs)

text \<open>
  C5. When the collection (with every record carrying its identity key) already has a
  record with the given id, \<open>create_hotel\<close>, \<open>create_customer\<close> and
  \<open>create_reservation\<close> return \<open>False\<close> and the store they leave is the store they
  found: nothing is saved, so every collection loads as before.
\<close>

theorem duplicate_id_rejected:
  "(keyed ''hotel_id'' (display_hotels st) \<and> has_id ''hotel_id'' hotel_id (display_hotels st)
      \<longrightarrow> create_hotel st hotel_id name location total_rooms = Inr (False, st))
   \<and> (keyed ''customer_id'' (display_customers st)
        \<and> has_id ''customer_id'' customer_id (display_customers st)
      \<longrightarrow> create_customer st customer_id cname email phone = Inr (False, st))
   \<and> (keyed ''reservation_id'' (display_reservations st)
        \<and> has_id ''reservation_id'' reservation_id (display_reservations st)
      \<longrightarrow> create_reservation st reservation_id c h now = Inr (False, st))"
  by (simp add: create_hotel_def create_customer_def create_reservation_def
      display_hotels_def display_customers_def display_reservations_def any_eq_keyed)

theorem duplicate_id_rejected_witness:
  "keyed ''hotel_id'' (display_hotels booked_store)
   \<and> has_id ''hotel_id'' 1 (display_hotels booked_store)
   \<and> create_hotel booked_store 1 ''Other'' ''LA'' 50 = Inr (False, booked_store)
   \<and> keyed ''customer_id'' (display_customers booked_store)
   \<and> has_id ''customer_id'' 1 (display_customers booked_store)
   \<and> create_customer booked_store 1 ''Jane'' ''jane@mail.com'' ''456'' = Inr (False, booked_store)
   \<and> keyed ''reservation_id'' (display_reservations booked_store)
   \<and> has_id ''reservation_id'' 1 (display_reservations booked_store)
   \<and> create_reservation booked_store 1 1 1 ''2024-05-02'' = Inr (False, booked_store)"
  using duplicate_id_rejected [of booked_store 1 "''Other''" "''LA''" 50 1 "''Jane''"
      "''jane@mail.com''" "''456''" 1 1 1 "''2024-05-02''"]
  by (simp add: example_defs)

text \<open>
  C4. In a store whose records carry their identity keys, when no customer has the given
  \<open>customer_id\<close> or no hotel has the given \<open>hotel_id\<close>, \<open>create_reservation\<close> returns
  \<open>False\<close> and leaves the whole store (all three files) as it was.
\<close>

theorem reservation_needs_customer_and_hotel:
  assumes "keyed ''reservation_id'' (display_reservations st)"
    and "keyed ''customer_id'' (display_customers st)"
    and "keyed ''hotel_id'' (display_hotels st)"
    and "\<not> has_id ''customer_id'' customer_id (display_customers st)
         \<or> \<not> has_id ''hotel_id'' hotel_id (display_hotels st)"
  shows "create_reservation st reservation_id customer_id hotel_id now = Inr (False, st)"
  using assms
  by (auto simp: create_reservation_def display_hotels_def display_customers_def Let_def
      display_reservations_def any_eq_keyed book_room_absent split: bool.splits)

theorem reservation_needs_customer_and_hotel_witness:
  "keyed ''reservation_id'' (display_reservations booked_store)
   \<and> keyed ''customer_id'' (display_customers booked_store)
   \<and> keyed ''hotel_id'' (display_hotels booked_store)
   \<and> has_id ''customer_id'' 1 (display_customers booked_store)
   \<and> \<not> has_id ''hotel_id'' 99 (display_hotels booked_store)
   \<and> create_reservation booked_store 2 1 99 ''2024-05-02'' = Inr (False, booked_store)"
  using reservation_needs_customer_and_hotel [of booked_store 1 99 2 "''2024-05-02''"]
  by (simp add: example_defs)

section \<open>Deletion\<close>

text \<open>
  C8. \<open>delete_hotel\<close> and \<open>delete_customer\<close> leave the reservations file exactly as it
  was, whatever they return, so every reservation that refers to the deleted hotel or
  customer stays; and deleting an id that no record has (in a collection whose records
  carry the key) returns \<open>False\<close> and leaves the whole store as it was.
\<close>

theorem delete_no_cascade:
  "reservations_file (after st (delete_hotel st hotel_id)) = reservations_file st
   \<and> reservations_file (after st (delete_customer st customer_id)) = reservations_file st
   \<and> (keyed ''hotel_id'' (display_hotels st) \<and> \<not> has_id ''hotel_id'' hotel_id (display_hotels st)
      \<longrightarrow> delete_hotel st hotel_id = Inr (False, st))
   \<and> (keyed ''customer_id'' (display_customers st)
        \<and> \<not> has_id ''customer_id'' customer_id (display_customers st)
      \<longrightarrow> delete_customer st customer_id = Inr (False, st))"
  by (auto simp: after_def delete_hotel_def delete_customer_def Let_def display_hotels_def
      display_customers_def filter_ne_keyed filter_all_length has_id_def split: sum.splits)

theorem delete_no_cascade_witness:
  "display_hotels (after booked_store (delete_hotel booked_store 1)) = []
   \<and> display_reservations (after booked_store (delete_hotel booked_store 1))
       = display_reservations booked_store
   \<and> display_customers (after booked_store (delete_customer booked_store 1)) = []
   \<and> display_reservations (after booked_store (delete_customer booked_store 1))
       = [Reservation 1 1 1 ''2024-05-01 10:00:00'']
   \<and> keyed ''hotel_id'' (display_hotels booked_store)
   \<and> \<not> has_id ''hotel_id'' 5 (display_hotels booked_store)
   \<and> delete_hotel booked_store 5 = Inr (False, booked_store)
   \<and> keyed ''customer_id'' (display_customers booked_store)
   \<and> \<not> has_id ''customer_id'' 5 (display_customers booked_store)
   \<and> delete_customer booked_store 5 = Inr (False, booked_store)"
  using delete_no_cascade [of booked_store 1 1] delete_no_cascade [of booked_store 5 5]
  by (simp add: example_defs delete_hotel_def delete_customer_def)

section \<open>Storage faults\<close>



section \<open>Facts about updates and room accounting\<close>


lemma apply_kwargs_lookup:
  "map_of (apply_kwargs kw d) key =
     (case map_of d key of
        None \<Rightarrow> None
      | Some old \<Rightarrow> (case map_of (rev kw) key of None \<Rightarrow> Some old | Some v \<Rightarrow> Some v))"
proof (induction kw d rule: apply_kwargs.induct)
  case (1 d)
  then show ?case by (simp split: option.splits)
next
  case (2 k v kwargs d)
  then show ?case
    by (auto simp: contains_def setitem_def update_conv' map_add_def split: option.splits)
qed


lemma getitem_apply_kwargs:
  "getitem (apply_kwargs kw d) key =
     (if contains d key
      then (case map_of (rev kw) key of Some v \<Rightarrow> Inr v | None \<Rightarrow> getitem d key)
      else Inl KeyError)"
  by (simp add: contains_def getitem_def apply_kwargs_lookup split: option.splits)


lemma getitem_setitem:
  "getitem (setitem h k v) key = (if key = k then Inr v else getitem h key)"
  by (simp add: getitem_def setitem_def update_conv')

lemma getitem_add_rooms:
  "getitem h ''available_rooms'' = Inr (IntV a) \<Longrightarrow>
   getitem (add_rooms d h) key =
     (if key = ''available_rooms'' then Inr (IntV (a + d)) else getitem h key)"
  by (simp add: add_rooms_def getitem_setitem)



lemma find_reservation_unique:
  assumes "keyed ''reservation_id'' rs" "distinct (ids ''reservation_id'' rs)" "r \<in> set rs"
    and "getitem r ''reservation_id'' = Inr (IntV i)"
  shows "find_reservation i rs = Inr (Some r)"
  using assms
proof (induction rs)
  case Nil
  then show ?case by simp
next
  case (Cons x xs)
  show ?case
  proof (cases "getitem x ''reservation_id'' = Inr (IntV i)")
    case True
    with Cons.prems have "r = x" by (auto simp: ids_def image_iff)
    with True show ?thesis by simp
  next
    case False
    with Cons.prems have "r \<in> set xs" by auto
    moreover from Cons.prems have "keyed ''reservation_id'' xs" "distinct (ids ''reservation_id'' xs)"
      by (auto simp: keyed_def ids_def)
    moreover from Cons.prems obtain w where "getitem x ''reservation_id'' = Inr w"
      by (auto simp: keyed_def getitem_contains)
    ultimately show ?thesis using Cons.IH Cons.prems False by simp
  qed
qed

lemma release_rooms_counted:
  "counted hs \<Longrightarrow> getitem r ''hotel_id'' = Inr v \<Longrightarrow>
   release_rooms r hs = Inr (add_rooms_at v 1 hs)"
proof (induction hs)
  case Nil
  then show ?case by (simp add: add_rooms_at_def)
next
  case (Cons x xs)
  from Cons.prems obtain w a where
    w: "getitem x ''hotel_id'' = Inr w" "getitem x ''available_rooms'' = Inr (IntV a)"
    by (auto simp: counted_def keyed_def getitem_contains)
  from Cons.prems have "counted xs" by (simp add: counted_def keyed_def)
  with Cons have "release_rooms r xs = Inr (add_rooms_at v 1 xs)" by simp
  with w Cons.prems show ?case by (simp add: add_rooms_at_def add_rooms_def)
qed

lemma remove1_unique:
  assumes "distinct (ids k rs)" "r \<in> set rs" "getitem r k = Inr (IntV i)"
  shows "length (remove1 r rs) + 1 = length rs \<and> \<not> has_id k i (remove1 r rs)"
proof -
  from assms(1) have d: "distinct rs" by (simp add: ids_def distinct_map)
  from assms(1) have inj: "inj_on (\<lambda>r. getitem r k) (set rs)" by (simp add: ids_def distinct_map)
  have "length (remove1 r rs) + 1 = length rs"
    using assms(2) by (simp add: length_remove1) (cases rs, auto)
  moreover have "\<not> has_id k i (remove1 r rs)"
  proof
    assume "has_id k i (remove1 r rs)"
    then obtain x where x: "x \<in> set (remove1 r rs)" "getitem x k = Inr (IntV i)"
      by (auto simp: has_id_def)
    with d have "x \<in> set rs" "x \<noteq> r" by auto
    with inj assms(2,3) x(2) show False unfolding inj_on_def by metis
  qed
  ultimately show ?thesis by simp
qed


section \<open>Modification\<close>



section \<open>Reservations\<close>



text \<open>
  C3. Cancelling an id that no reservation has (all of them carrying the key) returns
  \<open>False\<close> and leaves the store as it was. When the reservation \<open>r\<close> has the id, the ids
  being unique, and the hotel records carry their id and an integer counter,
  \<open>cancel_reservation\<close> returns \<open>True\<close>, saves the reservations without \<open>r\<close> (one record
  fewer, the others kept, none left with that id) and saves the hotel list in which
  exactly the hotels whose \<open>hotel_id\<close> equals that of \<open>r\<close> have their counter raised by
  one, every other field and every other hotel as before.
\<close>

theorem cancel_reservation_releases:
  "(keyed ''reservation_id'' (display_reservations st)
      \<and> \<not> has_id ''reservation_id'' reservation_id (display_reservations st)
     \<longrightarrow> cancel_reservation st reservation_id = Inr (False, st))
   \<and> (keyed ''reservation_id'' (display_reservations st)
      \<and> distinct (ids ''reservation_id'' (display_reservations st))
      \<and> r \<in> set (display_reservations st)
      \<and> getitem r ''reservation_id'' = Inr (IntV reservation_id)
      \<and> getitem r ''hotel_id'' = Inr v
      \<and> counted (display_hotels st)
     \<longrightarrow> cancel_reservation st reservation_id =
           Inr (True,
                st\<lparr>hotels_file := save_data (hotels_file st)
                       (map (\<lambda>h. if getitem h ''hotel_id'' = Inr v then add_rooms 1 h else h)
                          (display_hotels st)),
                   reservations_file := save_data (reservations_file st)
                       (remove1 r (display_reservations st))\<rparr>)
         \<and> length (remove1 r (display_reservations st)) + 1 = length (display_reservations st)
         \<and> set (remove1 r (display_reservations st)) = set (display_reservations st) - {r}
         \<and> \<not> has_id ''reservation_id'' reservation_id (remove1 r (display_reservations st)))
   \<and> (getitem h ''available_rooms'' = Inr (IntV a)
     \<longrightarrow> getitem (add_rooms 1 h) ''available_rooms'' = Inr (IntV (a + 1))
         \<and> (\<forall>key. key \<noteq> ''available_rooms'' \<longrightarrow> getitem (add_rooms 1 h) key = getitem h key))"
proof -
  have absent: "cancel_reservation st reservation_id = Inr (False, st)"
    if "keyed ''reservation_id'' (display_reservations st)"
      "\<not> has_id ''reservation_id'' reservation_id (display_reservations st)"
    using that by (simp add: cancel_reservation_def display_reservations_def find_reservation_absent)
  have present: "cancel_reservation st reservation_id =
           Inr (True,
                st\<lparr>hotels_file := save_data (hotels_file st)
                       (map (\<lambda>h. if getitem h ''hotel_id'' = Inr v then add_rooms 1 h else h)
                          (display_hotels st)),
                   reservations_file := save_data (reservations_file st)
                       (remove1 r (display_reservations st))\<rparr>)
         \<and> length (remove1 r (display_reservations st)) + 1 = length (display_reservations st)
         \<and> set (remove1 r (display_reservations st)) = set (display_reservations st) - {r}
         \<and> \<not> has_id ''reservation_id'' reservation_id (remove1 r (display_reservations st))"
    if k: "keyed ''reservation_id'' (display_reservations st)"
      and d: "distinct (ids ''reservation_id'' (display_reservations st))"
      and r: "r \<in> set (display_reservations st)"
      and i: "getitem r ''reservation_id'' = Inr (IntV reservation_id)"
      and v: "getitem r ''hotel_id'' = Inr v"
      and c: "counted (display_hotels st)"
  proof -
    have "find_reservation reservation_id (display_reservations st) = Inr (Some r)"
      using k d r i by (rule find_reservation_unique)
    moreover have "release_rooms r (display_hotels st) = Inr (add_rooms_at v 1 (display_hotels st))"
      using c v by (rule release_rooms_counted)
    ultimately have "cancel_reservation st reservation_id =
           Inr (True,
                st\<lparr>hotels_file := save_data (hotels_file st)
                       (map (\<lambda>h. if getitem h ''hotel_id'' = Inr v then add_rooms 1 h else h)
                          (display_hotels st)),
                   reservations_file := save_data (reservations_file st)
                       (remove1 r (display_reservations st))\<rparr>)"
      by (simp add: cancel_reservation_def display_reservations_def display_hotels_def
          add_rooms_at_def)
    moreover from d have "distinct (display_reservations st)"
      by (simp add: ids_def distinct_map)
    then have "set (remove1 r (display_reservations st)) = set (display_reservations st) - {r}"
      by simp
    ultimately show ?thesis using remove1_unique [OF d r i] by simp
  qed
  have rooms: "getitem (add_rooms 1 h) ''available_rooms'' = Inr (IntV (a + 1))
         \<and> (\<forall>key. key \<noteq> ''available_rooms'' \<longrightarrow> getitem (add_rooms 1 h) key = getitem h key)"
    if "getitem h ''available_rooms'' = Inr (IntV a)"
    using getitem_add_rooms [OF that, of 1] by simp
  from absent present rooms show ?thesis by blast
qed

theorem cancel_reservation_releases_witness:
  "keyed ''reservation_id'' (display_reservations booked_store)
   \<and> \<not> has_id ''reservation_id'' 5 (display_reservations booked_store)
   \<and> cancel_reservation booked_store 5 = Inr (False, booked_store)
   \<and> distinct (ids ''reservation_id'' (display_reservations booked_store))
   \<and> display_reservations booked_store = [Reservation 1 1 1 ''2024-05-01 10:00:00'']
   \<and> counted (display_hotels booked_store)
   \<and> cancel_reservation booked_store 1 =
       Inr (True, booked_store\<lparr>
         hotels_file := stored
           [[(''hotel_id'', IntV 1), (''name'', StrV ''Test''), (''location'', StrV ''NY''),
             (''total_rooms'', IntV 2), (''available_rooms'', IntV 2)]],
         reservations_file := stored []\<rparr>)"
  using cancel_reservation_releases [of booked_store 5 "[]" "IntV 0" "[]" 0]
    cancel_reservation_releases [of booked_store 1 "Reservation 1 1 1 ''2024-05-01 10:00:00''"
      "IntV 1" "[]" 0]
  by (simp add: example_defs counted_def ids_def cancel_reservation_def add_rooms_def)

section \<open>The store after a call\<close>

lemma load_data_read_error: "read_error f \<Longrightarrow> load_data f = []"
  by (simp add: load_data_def json_load_def)

lemma load_save_cases:
  "load_data (save_data f x) = load_data f \<or> load_data (save_data f x) = x"
  by (simp add: load_save load_data_read_error)

lemma run_create_hotel:
  "run st (Create_hotel i n l t) = st
   \<or> (any_eq ''hotel_id'' (IntV i) (display_hotels st) = Inr False
      \<and> run st (Create_hotel i n l t) =
          st\<lparr>hotels_file := save_data (hotels_file st) (display_hotels st @ [Hotel i n l t])\<rparr>)"
  by (auto simp: after_def create_hotel_def display_hotels_def Let_def split: sum.splits bool.splits)

lemma run_create_customer:
  "run st (Create_customer i n e p) = st
   \<or> (any_eq ''customer_id'' (IntV i) (display_customers st) = Inr False
      \<and> run st (Create_customer i n e p) =
          st\<lparr>customers_file := save_data (customers_file st)
               (display_customers st @ [Customer i n e p])\<rparr>)"
  by (auto simp: after_def create_customer_def display_customers_def Let_def split: sum.splits bool.splits)

lemma run_delete_hotel:
  "run st (Delete_hotel i) = st
   \<or> (\<exists>hs'. filter_ne ''hotel_id'' (IntV i) (display_hotels st) = Inr hs'
      \<and> run st (Delete_hotel i) = st\<lparr>hotels_file := save_data (hotels_file st) hs'\<rparr>)"
  by (auto simp: after_def delete_hotel_def display_hotels_def Let_def split: sum.splits)

lemma run_delete_customer:
  "run st (Delete_customer i) = st
   \<or> (\<exists>cs'. filter_ne ''customer_id'' (IntV i) (display_customers st) = Inr cs'
      \<and> run st (Delete_customer i) = st\<lparr>customers_file := save_data (customers_file st) cs'\<rparr>)"
  by (auto simp: after_def delete_customer_def display_customers_def Let_def split: sum.splits)

lemma run_modify_hotel:
  "run st (Modify_hotel i kw) = st
   \<or> (\<exists>hs'. ''hotel_id'' \<notin> fst ` set kw
      \<and> modify_first ''hotel_id'' (IntV i) kw (display_hotels st) = Inr (Some hs')
      \<and> run st (Modify_hotel i kw) = st\<lparr>hotels_file := save_data (hotels_file st) hs'\<rparr>)"
  by (auto simp: after_def modify_hotel_def display_hotels_def Let_def names_parameter_def
      split: sum.splits option.splits if_splits)

lemma run_modify_customer:
  "run st (Modify_customer i kw) = st
   \<or> (\<exists>cs'. ''customer_id'' \<notin> fst ` set kw
      \<and> modify_first ''customer_id'' (IntV i) kw (display_customers st) = Inr (Some cs')
      \<and> run st (Modify_customer i kw) = st\<lparr>customers_file := save_data (customers_file st) cs'\<rparr>)"
  by (auto simp: after_def modify_customer_def display_customers_def Let_def names_parameter_def
      split: sum.splits option.splits if_splits)

lemma run_create_reservation:
  "run st (Create_reservation i c h now) = st
   \<or> (\<exists>hs'. any_eq ''reservation_id'' (IntV i) (display_reservations st) = Inr False
      \<and> book_room h (display_hotels st) = Inr (Some hs')
      \<and> run st (Create_reservation i c h now) =
          st\<lparr>hotels_file := save_data (hotels_file st) hs',
             reservations_file := save_data (reservations_file st)
               (display_reservations st @ [Reservation i c h now])\<rparr>)"
  by (auto simp: after_def create_reservation_def display_hotels_def display_reservations_def
      Let_def split: sum.splits option.splits bool.splits)

lemma run_cancel_reservation:
  "run st (Cancel_reservation i) = st
   \<or> (\<exists>r hs'. find_reservation i (display_reservations st) = Inr (Some r)
      \<and> release_rooms r (display_hotels st) = Inr hs'
      \<and> run st (Cancel_reservation i) =
          st\<lparr>hotels_file := save_data (hotels_file st) hs',
             reservations_file := save_data (reservations_file st)
               (remove1 r (display_reservations st))\<rparr>)"
  by (auto simp: after_def cancel_reservation_def display_hotels_def display_reservations_def
      Let_def split: sum.splits option.splits)

lemma filter_ne_filter:
  "filter_ne k v rs = Inr rs' \<Longrightarrow> rs' = filter (\<lambda>r. getitem r k \<noteq> Inr v) rs"
  by (induction rs arbitrary: rs') (auto split: sum.splits if_splits)

lemma getitem_apply_kwargs_other:
  "key \<notin> fst ` set kw \<Longrightarrow> getitem (apply_kwargs kw d) key = getitem d key"
proof -
  assume "key \<notin> fst ` set kw"
  then have "map_of (rev kw) key = None" by (simp add: map_of_eq_None_iff)
  then show ?thesis
    by (simp add: getitem_apply_kwargs) (simp add: contains_def getitem_def)
qed

lemma modify_first_other:
  "modify_first k v kw rs = Inr (Some rs') \<Longrightarrow> key \<notin> fst ` set kw \<Longrightarrow> ids key rs' = ids key rs"
  by (induction rs arbitrary: rs')
     (auto simp: ids_def getitem_apply_kwargs_other split: sum.splits if_splits option.splits)

lemma book_room_other:
  "book_room i hs = Inr (Some hs') \<Longrightarrow> key \<noteq> ''available_rooms'' \<Longrightarrow> ids key hs' = ids key hs"
  by (induction hs arbitrary: hs')
     (auto simp: ids_def getitem_setitem split: sum.splits if_splits option.splits val.splits)

lemma release_rooms_other:
  "release_rooms r hs = Inr hs' \<Longrightarrow> key \<noteq> ''available_rooms'' \<Longrightarrow> ids key hs' = ids key hs"
  by (induction hs arbitrary: hs')
     (auto simp: ids_def getitem_setitem split: sum.splits if_splits option.splits val.splits)

lemma identity_kept_same: "ids k new = ids k old \<Longrightarrow> identity_kept k old new"
  by (simp add: identity_kept_def)

lemma identity_kept_saved:
  assumes "identity_kept k (load_data f) x"
  shows "identity_kept k (load_data f) (load_data (save_data f x))"
  using assms load_save_cases [of f x] by (auto simp: identity_kept_def)

lemma kept_create_hotel:
  "identity_kept k (display_hotels st) (display_hotels (run st (Create_hotel i n l t)))
   \<and> customers_file (run st (Create_hotel i n l t)) = customers_file st
   \<and> reservations_file (run st (Create_hotel i n l t)) = reservations_file st"
proof -
  have "identity_kept k (load_data (hotels_file st)) (load_data (hotels_file st) @ [Hotel i n l t])"
    by (auto simp: identity_kept_def)
  then show ?thesis
    using run_create_hotel [of st i n l t] identity_kept_saved [of k "hotels_file st"]
    by (auto simp: display_hotels_def identity_kept_same)
qed

lemma kept_create_customer:
  "identity_kept k (display_customers st) (display_customers (run st (Create_customer i n e p)))
   \<and> hotels_file (run st (Create_customer i n e p)) = hotels_file st
   \<and> reservations_file (run st (Create_customer i n e p)) = reservations_file st"
proof -
  have "identity_kept k (load_data (customers_file st))
      (load_data (customers_file st) @ [Customer i n e p])"
    by (auto simp: identity_kept_def)
  then show ?thesis
    using run_create_customer [of st i n e p] identity_kept_saved [of k "customers_file st"]
    by (auto simp: display_customers_def identity_kept_same)
qed

lemma kept_delete_hotel:
  "identity_kept k (display_hotels st) (display_hotels (run st (Delete_hotel i)))
   \<and> customers_file (run st (Delete_hotel i)) = customers_file st
   \<and> reservations_file (run st (Delete_hotel i)) = reservations_file st"
proof -
  have "identity_kept k (load_data (hotels_file st)) hs'"
    if "filter_ne ''hotel_id'' (IntV i) (load_data (hotels_file st)) = Inr hs'" for hs'
    using filter_ne_filter [OF that] by (auto simp: identity_kept_def)
  then show ?thesis
    using run_delete_hotel [of st i] identity_kept_saved [of k "hotels_file st"]
    by (auto simp: display_hotels_def identity_kept_same)
qed

lemma kept_delete_customer:
  "identity_kept k (display_customers st) (display_customers (run st (Delete_customer i)))
   \<and> hotels_file (run st (Delete_customer i)) = hotels_file st
   \<and> reservations_file (run st (Delete_customer i)) = reservations_file st"
proof -
  have "identity_kept k (load_data (customers_file st)) cs'"
    if "filter_ne ''customer_id'' (IntV i) (load_data (customers_file st)) = Inr cs'" for cs'
    using filter_ne_filter [OF that] by (auto simp: identity_kept_def)
  then show ?thesis
    using run_delete_customer [of st i] identity_kept_saved [of k "customers_file st"]
    by (auto simp: display_customers_def identity_kept_same)
qed

lemma kept_modify_hotel:
  "identity_kept ''hotel_id'' (display_hotels st) (display_hotels (run st (Modify_hotel i kw)))
   \<and> customers_file (run st (Modify_hotel i kw)) = customers_file st
   \<and> reservations_file (run st (Modify_hotel i kw)) = reservations_file st"
proof -
  have "identity_kept ''hotel_id'' (load_data (hotels_file st)) hs'"
    if "modify_first ''hotel_id'' (IntV i) kw (load_data (hotels_file st)) = Inr (Some hs')"
      "''hotel_id'' \<notin> fst ` set kw" for hs'
    using modify_first_other [OF that] by (rule identity_kept_same)
  then show ?thesis
    using run_modify_hotel [of st i kw] identity_kept_saved [of "''hotel_id''" "hotels_file st"]
    by (auto simp: display_hotels_def identity_kept_same)
qed

lemma kept_modify_customer:
  "identity_kept ''customer_id'' (display_customers st)
     (display_customers (run st (Modify_customer i kw)))
   \<and> hotels_file (run st (Modify_customer i kw)) = hotels_file st
   \<and> reservations_file (run st (Modify_customer i kw)) = reservations_file st"
proof -
  have "identity_kept ''customer_id'' (load_data (customers_file st)) cs'"
    if "modify_first ''customer_id'' (IntV i) kw (load_data (customers_file st)) = Inr (Some cs')"
      "''customer_id'' \<notin> fst ` set kw" for cs'
    using modify_first_other [OF that] by (rule identity_kept_same)
  then show ?thesis
    using run_modify_customer [of st i kw]
      identity_kept_saved [of "''customer_id''" "customers_file st"]
    by (auto simp: display_customers_def identity_kept_same)
qed

lemma kept_create_reservation:
  "identity_kept ''hotel_id'' (display_hotels st)
     (display_hotels (run st (Create_reservation i c h now)))
   \<and> identity_kept k (display_reservations st)
     (display_reservations (run st (Create_reservation i c h now)))
   \<and> customers_file (run st (Create_reservation i c h now)) = customers_file st"
proof -
  have "identity_kept ''hotel_id'' (load_data (hotels_file st)) hs'"
    if "book_room h (load_data (hotels_file st)) = Inr (Some hs')" for hs'
    using book_room_other [OF that, of "''hotel_id''"] by (simp add: identity_kept_same)
  moreover have "identity_kept k (load_data (reservations_file st))
      (load_data (reservations_file st) @ [Reservation i c h now])"
    by (auto simp: identity_kept_def)
  ultimately show ?thesis
    using run_create_reservation [of st i c h now]
      identity_kept_saved [of "''hotel_id''" "hotels_file st"]
      identity_kept_saved [of k "reservations_file st"]
    by (auto simp: display_hotels_def display_reservations_def identity_kept_same)
qed

lemma kept_cancel_reservation:
  "identity_kept ''hotel_id'' (display_hotels st)
     (display_hotels (run st (Cancel_reservation i)))
   \<and> identity_kept k (display_reservations st)
     (display_reservations (run st (Cancel_reservation i)))
   \<and> customers_file (run st (Cancel_reservation i)) = customers_file st"
proof -
  have "identity_kept ''hotel_id'' (load_data (hotels_file st)) hs'"
    if "release_rooms r (load_data (hotels_file st)) = Inr hs'" for hs' r
    using release_rooms_other [OF that, of "''hotel_id''"] by (simp add: identity_kept_same)
  moreover have "identity_kept k (load_data (reservations_file st))
      (remove1 r (load_data (reservations_file st)))" for r
    by (auto simp: identity_kept_def)
  ultimately show ?thesis
    using run_cancel_reservation [of st i]
      identity_kept_saved [of "''hotel_id''" "hotels_file st"]
      identity_kept_saved [of k "reservations_file st"]
    by (auto simp: display_hotels_def display_reservations_def identity_kept_same)
qed

section \<open>Identity keys\<close>

lemma ids_saved:
  assumes "ids k x = ids k (load_data f)"
  shows "ids k (load_data (save_data f x)) = ids k (load_data f)"
  using assms load_save_cases [of f x] by auto

lemma ids_modify_hotel:
  "ids ''hotel_id'' (display_hotels (run st (Modify_hotel i kw))) = ids ''hotel_id'' (display_hotels st)"
proof -
  have "ids ''hotel_id'' hs' = ids ''hotel_id'' (load_data (hotels_file st))"
    if "modify_first ''hotel_id'' (IntV i) kw (load_data (hotels_file st)) = Inr (Some hs')"
      "''hotel_id'' \<notin> fst ` set kw" for hs'
    using that by (rule modify_first_other)
  then show ?thesis
    using run_modify_hotel [of st i kw] ids_saved [of "''hotel_id''" _ "hotels_file st"]
    by (auto simp: display_hotels_def)
qed

lemma ids_modify_customer:
  "ids ''customer_id'' (display_customers (run st (Modify_customer i kw)))
     = ids ''customer_id'' (display_customers st)"
proof -
  have "ids ''customer_id'' cs' = ids ''customer_id'' (load_data (customers_file st))"
    if "modify_first ''customer_id'' (IntV i) kw (load_data (customers_file st)) = Inr (Some cs')"
      "''customer_id'' \<notin> fst ` set kw" for cs'
    using that by (rule modify_first_other)
  then show ?thesis
    using run_modify_customer [of st i kw] ids_saved [of "''customer_id''" _ "customers_file st"]
    by (auto simp: display_customers_def)
qed

text \<open>
  C9. Whatever the call, the identity key of every existing record of the three
  collections stays as it was: the records of a collection are updated in place with
  their keys unchanged, or records are appended, filtered out or removed. In particular
  the hotels after \<open>modify_hotel\<close> and the customers after \<open>modify_customer\<close> have the
  identity keys they had, record by record, for every \<open>kwargs\<close>: the identity key is a
  parameter of the method, so a call that proposes a value for it raises \<open>TypeError\<close>
  and saves nothing.
\<close>

theorem identity_kept_by_every_call:
  "identity_kept ''hotel_id'' (display_hotels st) (display_hotels (run st c))
   \<and> identity_kept ''customer_id'' (display_customers st) (display_customers (run st c))
   \<and> identity_kept ''reservation_id'' (display_reservations st) (display_reservations (run st c))
   \<and> ids ''hotel_id'' (display_hotels (run st (Modify_hotel hotel_id kwargs)))
       = ids ''hotel_id'' (display_hotels st)
   \<and> ids ''customer_id'' (display_customers (run st (Modify_customer customer_id kwargs)))
       = ids ''customer_id'' (display_customers st)
   \<and> (''hotel_id'' \<in> fst ` set kwargs \<longrightarrow> modify_hotel st hotel_id kwargs = Inl TypeError)
   \<and> (''customer_id'' \<in> fst ` set kwargs
      \<longrightarrow> modify_customer st customer_id kwargs = Inl TypeError)"
proof -
  have kept: "identity_kept ''hotel_id'' (display_hotels st) (display_hotels (run st c))
     \<and> identity_kept ''customer_id'' (display_customers st) (display_customers (run st c))
     \<and> identity_kept ''reservation_id'' (display_reservations st)
         (display_reservations (run st c))"
  proof (cases c)
    case (Create_hotel i n l t)
    with kept_create_hotel [of "''hotel_id''" st i n l t] show ?thesis
      by (simp add: display_customers_def display_reservations_def identity_kept_same)
  next
    case (Delete_hotel i)
    with kept_delete_hotel [of "''hotel_id''" st i] show ?thesis
      by (simp add: display_customers_def display_reservations_def identity_kept_same)
  next
    case (Modify_hotel i kw)
    with kept_modify_hotel [of st i kw] show ?thesis
      by (simp add: display_customers_def display_reservations_def identity_kept_same)
  next
    case Display_hotels
    then show ?thesis by (simp add: identity_kept_same)
  next
    case (Create_customer i n e p)
    with kept_create_customer [of "''customer_id''" st i n e p] show ?thesis
      by (simp add: display_hotels_def display_reservations_def identity_kept_same)
  next
    case (Delete_customer i)
    with kept_delete_customer [of "''customer_id''" st i] show ?thesis
      by (simp add: display_hotels_def display_reservations_def identity_kept_same)
  next
    case (Modify_customer i kw)
    with kept_modify_customer [of st i kw] show ?thesis
      by (simp add: display_hotels_def display_reservations_def identity_kept_same)
  next
    case Display_customers
    then show ?thesis by (simp add: identity_kept_same)
  next
    case (Create_reservation i cu h now)
    with kept_create_reservation [of st i cu h now "''reservation_id''"] show ?thesis
      by (simp add: display_customers_def identity_kept_same)
  next
    case (Cancel_reservation i)
    with kept_cancel_reservation [of st i "''reservation_id''"] show ?thesis
      by (simp add: display_customers_def identity_kept_same)
  next
    case Display_reservations
    then show ?thesis by (simp add: identity_kept_same)
  qed
  have "modify_hotel st hotel_id kwargs = Inl TypeError" if "''hotel_id'' \<in> fst ` set kwargs"
    using that by (simp add: modify_hotel_def names_parameter_def)
  moreover have "modify_customer st customer_id kwargs = Inl TypeError"
    if "''customer_id'' \<in> fst ` set kwargs"
    using that by (simp add: modify_customer_def names_parameter_def)
  ultimately show ?thesis
    using kept ids_modify_hotel [of st hotel_id kwargs]
      ids_modify_customer [of st customer_id kwargs]
    by blast
qed

theorem identity_kept_by_every_call_witness:
  "ids ''hotel_id'' (display_hotels booked_store) = [Inr (IntV 1)]
   \<and> modify_hotel booked_store 1 [(''hotel_id'', IntV 2)] = Inl TypeError
   \<and> display_hotels (run booked_store (Modify_hotel 1 [(''hotel_id'', IntV 2)]))
       = display_hotels booked_store
   \<and> modify_customer booked_store 1 [(''hotel_id'', IntV 2)] =
       Inr (True, booked_store\<lparr>customers_file :=
              stored [Customer 1 ''John'' ''john@mail.com'' ''123'']\<rparr>)
   \<and> display_hotels (run booked_store
         (Modify_hotel 1 [(''name'', StrV ''Ritz''), (''available_rooms'', IntV 0)])) =
       [[(''hotel_id'', IntV 1), (''name'', StrV ''Ritz''), (''location'', StrV ''NY''),
         (''total_rooms'', IntV 2), (''available_rooms'', IntV 0)]]
   \<and> ids ''hotel_id'' (display_hotels (run booked_store
         (Modify_hotel 1 [(''name'', StrV ''Ritz''), (''available_rooms'', IntV 0)])))
       = [Inr (IntV 1)]"
  using identity_kept_by_every_call
      [of booked_store "Modify_hotel 1 [(''hotel_id'', IntV 2)]" 1 "[(''hotel_id'', IntV 2)]" 1]
    identity_kept_by_every_call
      [of booked_store "Modify_hotel 1 [(''name'', StrV ''Ritz''), (''available_rooms'', IntV 0)]"
        1 "[(''name'', StrV ''Ritz''), (''available_rooms'', IntV 0)]" 1]
  by (simp add: example_defs modify_hotel_def modify_customer_def ids_def)

section \<open>Room accounting over sequences of calls\<close>

























section \<open>The room bound\<close>





end
